theory Spec2Isabelle
  imports Main
begin

section \<open>Qt value types\<close>

text \<open>
  Coordinates are C++ \<open>int\<close>s, 32 bits wide. They are held as integers, and the two
  operations that compute with them in the handlers, the difference of two points and the
  Manhattan length, wrap their results around to 32 bits in two's complement, as the
  compiled code does on overflow.
\<close>

record QPoint =
  xp :: int
  yp :: int

record QSize =
  wd :: int
  ht :: int

record QRect =
  x1 :: int
  y1 :: int
  x2 :: int
  y2 :: int

text \<open>\<open>QPoint()\<close>: the default-constructed point.\<close>

definition QPoint_default :: QPoint where
  "QPoint_default = \<lparr>xp = 0, yp = 0\<rparr>"

text \<open>\<open>QPoint::isNull()\<close>: both coordinates are 0.\<close>

definition isNull :: "QPoint \<Rightarrow> bool" where
  "isNull p = (xp p = 0 \<and> yp p = 0)"

text \<open>The value a 32-bit signed \<open>int\<close> holds after an operation whose exact result is \<open>x\<close>.\<close>

definition int32 :: "int \<Rightarrow> int" where
  "int32 x = (x + 2147483648) mod 4294967296 - 2147483648"

text \<open>\<open>operator-(QPoint, QPoint)\<close>.\<close>

definition QPoint_minus :: "QPoint \<Rightarrow> QPoint \<Rightarrow> QPoint" where
  "QPoint_minus p q = \<lparr>xp = int32 (xp p - xp q), yp = int32 (yp p - yp q)\<rparr>"

text \<open>\<open>T qAbs(const T &t)\<close>: \<open>t >= 0 ? t : -t\<close>.\<close>

definition qAbs :: "int \<Rightarrow> int" where
  "qAbs t = (if t \<ge> 0 then t else int32 (- t))"

text \<open>\<open>QPoint::manhattanLength()\<close>: \<open>qAbs(x()) + qAbs(y())\<close>.\<close>

definition manhattanLength :: "QPoint \<Rightarrow> int" where
  "manhattanLength p = int32 (qAbs (xp p) + qAbs (yp p))"

text \<open>\<open>QPoint::setY\<close>.\<close>

definition setY :: "int \<Rightarrow> QPoint \<Rightarrow> QPoint" where
  "setY v p = p\<lparr>yp := v\<rparr>"

text \<open>
  \<open>QRect::contains(const QPoint&)\<close> with \<open>proper = false\<close>, as the Qt library
  computes it on the stored corners: a rectangle whose right (bottom) corner lies more than
  one before its left (top) corner is read with the corners swapped.
\<close>

definition QRect_contains :: "QRect \<Rightarrow> QPoint \<Rightarrow> bool" where
  "QRect_contains r p =
     (let l = (if x2 r < x1 r - 1 then x2 r else x1 r);
          rr = (if x2 r < x1 r - 1 then x1 r else x2 r);
          t = (if y2 r < y1 r - 1 then y2 r else y1 r);
          b = (if y2 r < y1 r - 1 then y1 r else y2 r)
      in \<not> (xp p < l \<or> xp p > rr) \<and> \<not> (yp p < t \<or> yp p > b))"

datatype MouseButton = NoButton | LeftButton | RightButton | MiddleButton

text \<open>The fields of a \<open>QMouseEvent\<close> that the handlers read.\<close>

record QMouseEvent =
  button :: MouseButton
  buttons :: "MouseButton set"
  pos :: QPoint
  globalPos :: QPoint

datatype QIcon = NullIcon | IconId nat

record QLabel =
  visible :: bool
  text_of :: string
  pixmap :: "QIcon option"


section \<open>The tab's private data\<close>

text \<open>Objects are named by references; the null pointer is \<open>None\<close>.\<close>

type_synonym tab_ref = nat
type_synonym widget_ref = nat
type_synonym area_ref = nat
type_synonym floating_ref = nat

datatype eDragState =
    DraggingInactive
  | DraggingMousePressed
  | DraggingTab
  | DraggingFloatingWidget

text \<open>
  \<open>struct DockWidgetTabPrivate\<close>. \<open>this_tab\<close> is the field \<open>_this\<close>. The two
  labels are owned by the tab, so their state is held in place.
\<close>

record DockWidgetTabPrivate =
  this_tab :: tab_ref
  DockWidget :: widget_ref
  IconLabel :: QLabel
  TitleLabel :: QLabel
  DragStartMousePosition :: QPoint
  IsActiveTab :: bool
  DockArea :: "area_ref option"
  DragState :: eDragState
  FloatingWidget :: "floating_ref option"
  Icon :: QIcon


section \<open>Collaborators\<close>

text \<open>
  What the tab reads from the objects around it. The classes themselves
  (\<open>CDockWidget\<close>, \<open>CDockAreaWidget\<close>, \<open>CDockContainerWidget\<close>,
  \<open>CFloatingDockContainer\<close>) are not part of this file; the getters the tab calls are
  fields here. Objects reached through the panel are dereferenced by the source without a
  test and are taken as present; the two pointers the tab itself initialises to
  \<open>nullptr\<close> (\<open>DockArea\<close>, \<open>FloatingWidget\<close>) are options.
\<close>

record CDockContainerWidget =
  isFloating :: bool
  visibleDockAreaCount :: int
  dockAreaCount :: int

text \<open>One panel of a dock area: the panel, its tab and the tab's geometry in the area.\<close>

record TabEntry =
  content :: widget_ref
  titleWidget :: tab_ref
  geometry :: QRect

record CDockAreaWidget =
  contents :: "TabEntry list"
  area_size :: QSize
  titleAreaGeometry :: QRect
  mapFromGlobal :: "QPoint \<Rightarrow> QPoint"

record CDockWidget =
  dockContainer :: CDockContainerWidget
  dockAreaWidget :: area_ref
  DockWidgetMovable :: bool
  windowTitle :: string

datatype CFloatingDockContainer =
    FloatingDockWidget widget_ref
  | FloatingDockArea area_ref

text \<open>
  The objects a handler can reach when it runs. \<open>floating\<close> lists the floating windows
  created so far; a window's reference is its position in the list.
  \<open>mapToParent\<close> is the tab's own \<open>QWidget::mapToParent\<close>.
\<close>

record world =
  widgets :: "widget_ref \<Rightarrow> CDockWidget"
  areas :: "area_ref \<Rightarrow> CDockAreaWidget"
  floating :: "CFloatingDockContainer list"
  startDragDistance :: int
  mapToParent :: "QPoint \<Rightarrow> QPoint"

text \<open>
  Modelled from the spec: \<open>CDockAreaWidget::count()\<close> is missing; the spec's
  \<open>count() -> int\<close> is the number of tabs the area holds.
\<close>

definition count :: "CDockAreaWidget \<Rightarrow> int" where
  "count a = int (length (contents a))"

text \<open>
  Modelled from the spec: \<open>CDockAreaWidget::tabIndex\<close> is missing; the spec's
  \<open>tabIndexOf(panel) -> index\<close> is the position of the panel among the area's
  panels, -1 when it is not one of them.
\<close>

fun tabIndex_from :: "int \<Rightarrow> TabEntry list \<Rightarrow> widget_ref \<Rightarrow> int" where
  "tabIndex_from i [] p = -1"
| "tabIndex_from i (e # es) p = (if content e = p then i else tabIndex_from (i + 1) es p)"

definition tabIndex :: "CDockAreaWidget \<Rightarrow> widget_ref \<Rightarrow> int" where
  "tabIndex a p = tabIndex_from 0 (contents a) p"

text \<open>
  Modelled from the spec: \<open>CDockAreaWidget::indexOfContentByTitlePos\<close> is missing; the
  spec's \<open>indexAtPosition(point) -> index|none\<close> hit-tests the point against the
  geometries of the sibling tabs (the tab passed as \<open>exclude\<close> is skipped); no match
  is -1.
\<close>

fun indexOfContentByTitlePos_from ::
  "int \<Rightarrow> TabEntry list \<Rightarrow> QPoint \<Rightarrow> tab_ref \<Rightarrow> int" where
  "indexOfContentByTitlePos_from i [] p exclude = -1"
| "indexOfContentByTitlePos_from i (e # es) p exclude =
     (if QRect_contains (geometry e) p \<and> titleWidget e \<noteq> exclude then i
      else indexOfContentByTitlePos_from (i + 1) es p exclude)"

definition indexOfContentByTitlePos :: "CDockAreaWidget \<Rightarrow> QPoint \<Rightarrow> tab_ref \<Rightarrow> int" where
  "indexOfContentByTitlePos a p exclude = indexOfContentByTitlePos_from 0 (contents a) p exclude"

text \<open>
  Modelled from the spec: the constructor \<open>CFloatingDockContainer(CDockWidget*)\<close> is
  missing; the spec's \<open>createFloatingFromPanel(panel) -> window\<close> creates a new floating
  window wrapping only this single panel, leaving its siblings behind in the area that
  held it. The result is the new window's reference and the new world.
\<close>

definition new_CFloatingDockContainer_widget :: "world \<Rightarrow> widget_ref \<Rightarrow> floating_ref \<times> world" where
  "new_CFloatingDockContainer_widget w p =
     (let a = dockAreaWidget (widgets w p);
          A = areas w a;
          A' = A\<lparr>contents := filter (\<lambda>e. content e \<noteq> p) (contents A)\<rparr>
      in (length (floating w),
          w\<lparr>areas := (areas w)(a := A'), floating := floating w @ [FloatingDockWidget p]\<rparr>))"

text \<open>
  Modelled from the spec: the constructor \<open>CFloatingDockContainer(CDockAreaWidget*)\<close>
  is missing; the spec's \<open>createFloatingFromArea(area) -> window\<close> creates a floating
  window wrapping the entire area: the area object itself moves, it is not copied.
\<close>

definition new_CFloatingDockContainer_area :: "world \<Rightarrow> area_ref \<Rightarrow> floating_ref \<times> world" where
  "new_CFloatingDockContainer_area w a =
     (length (floating w), w\<lparr>floating := floating w @ [FloatingDockArea a]\<rparr>)"


section \<open>Observable effects\<close>

datatype styled = TheTab | TheTitleLabel

datatype DockWidgetAreas = OuterDockAreas | InnerDockAreas | AllDockAreas

text \<open>
  Calls that leave the tab: signals, requests to collaborators, and the inherited
  \<open>QFrame\<close> handlers. A handler returns them in the order it makes them. The
  \<open>qDebug\<close> output is left out.
\<close>

datatype effect =
    accept
  | QFrame_mousePressEvent
  | QFrame_mouseReleaseEvent
  | QFrame_mouseMoveEvent
  | clicked
  | activeTabChanged
  | reorderDockWidget area_ref int int
  | move QPoint
  | raise
  | CFloatingDockContainer_startFloating floating_ref QPoint QSize
  | moveFloating floating_ref
  | setAllowedAreas DockWidgetAreas
  | unpolish styled
  | polish styled
  | update

datatype error = NullDockArea | NullFloatingWidget


section \<open>The tab's operations\<close>

text \<open>The constructor followed by \<open>createLayout\<close>.\<close>

definition CDockWidgetTab_new :: "world \<Rightarrow> tab_ref \<Rightarrow> widget_ref \<Rightarrow> DockWidgetTabPrivate" where
  "CDockWidgetTab_new w t p =
     \<lparr>this_tab = t,
      DockWidget = p,
      IconLabel = \<lparr>visible = False, text_of = [], pixmap = None\<rparr>,
      TitleLabel = \<lparr>visible = True, text_of = windowTitle (widgets w p), pixmap = None\<rparr>,
      DragStartMousePosition = QPoint_default,
      IsActiveTab = False,
      DockArea = None,
      DragState = DraggingInactive,
      FloatingWidget = None,
      Icon = NullIcon\<rparr>"

definition isDraggingState :: "DockWidgetTabPrivate \<Rightarrow> eDragState \<Rightarrow> bool" where
  "isDraggingState d dragState = (DragState d = dragState)"

definition titleAreaGeometryContains ::
  "world \<Rightarrow> DockWidgetTabPrivate \<Rightarrow> QPoint \<Rightarrow> error + bool" where
  "titleAreaGeometryContains w d GlobalPos =
     (case DockArea d of
        None \<Rightarrow> Inl NullDockArea
      | Some a \<Rightarrow>
          Inr (QRect_contains (titleAreaGeometry (areas w a))
                 (mapFromGlobal (areas w a) GlobalPos)))"

definition moveTab :: "world \<Rightarrow> QMouseEvent \<Rightarrow> DockWidgetTabPrivate \<Rightarrow> effect list" where
  "moveTab w ev d =
     (let moveToPos = QPoint_minus (mapToParent w (pos ev)) (DragStartMousePosition d)
      in [accept, move (setY 0 moveToPos), raise])"

text \<open>
  \<open>startFloating\<close> returns its boolean, the updated private data, the updated world
  and the effects.
\<close>

definition startFloating ::
  "world \<Rightarrow> DockWidgetTabPrivate \<Rightarrow>
     error + (bool \<times> DockWidgetTabPrivate \<times> world \<times> effect list)" where
  "startFloating w d =
     (if isFloating (dockContainer (widgets w (DockWidget d)))
         \<and> visibleDockAreaCount (dockContainer (widgets w (DockWidget d))) = 1
         \<and> count (areas w (dockAreaWidget (widgets w (DockWidget d)))) = 1
      then Inr (False, d, w, [])
      else
        (let d1 = d\<lparr>DragState := DraggingFloatingWidget\<rparr> in
         case DockArea d1 of
           None \<Rightarrow> Inl NullDockArea
         | Some a \<Rightarrow>
             (let Size = area_size (areas w a);
                  (fw, w') =
                     (if count (areas w a) > 1
                      then new_CFloatingDockContainer_widget w (DockWidget d1)
                      else new_CFloatingDockContainer_area w a)
              in Inr (True, d1\<lparr>FloatingWidget := Some fw\<rparr>, w',
                      [CFloatingDockContainer_startFloating fw (DragStartMousePosition d1) Size,
                       setAllowedAreas OuterDockAreas]))))"

definition mousePressEvent ::
  "QMouseEvent \<Rightarrow> DockWidgetTabPrivate \<Rightarrow> DockWidgetTabPrivate \<times> effect list" where
  "mousePressEvent ev d =
     (if button ev = LeftButton
      then (d\<lparr>DragStartMousePosition := pos ev, DragState := DraggingMousePressed\<rparr>, [accept])
      else (d, [QFrame_mousePressEvent]))"

definition mouseReleaseEvent ::
  "world \<Rightarrow> QMouseEvent \<Rightarrow> DockWidgetTabPrivate \<Rightarrow> DockWidgetTabPrivate \<times> effect list" where
  "mouseReleaseEvent w ev d =
     (let reorder =
            (case DockArea d of
               None \<Rightarrow> []
             | Some a \<Rightarrow>
                 if isDraggingState d DraggingTab
                 then (let p = mapFromGlobal (areas w a) (globalPos ev);
                           fromIndex = tabIndex (areas w a) (DockWidget d);
                           toIndex0 = indexOfContentByTitlePos (areas w a) p (this_tab d);
                           toIndex = (if -1 = toIndex0 then count (areas w a) - 1 else toIndex0)
                       in [reorderDockWidget a fromIndex toIndex])
                 else []);
          click = (if \<not> isNull (DragStartMousePosition d) then [clicked] else [])
      in (d\<lparr>DragStartMousePosition := QPoint_default, DragState := DraggingInactive\<rparr>,
          reorder @ click @ [QFrame_mouseReleaseEvent]))"

definition mouseMoveEvent ::
  "world \<Rightarrow> QMouseEvent \<Rightarrow> DockWidgetTabPrivate \<Rightarrow>
     error + (DockWidgetTabPrivate \<times> world \<times> effect list)" where
  "mouseMoveEvent w ev d =
     (if LeftButton \<notin> buttons ev \<or> isDraggingState d DraggingInactive
      then Inr (d\<lparr>DragState := DraggingInactive\<rparr>, w, [QFrame_mouseMoveEvent])
      else if isDraggingState d DraggingFloatingWidget
      then (case FloatingWidget d of
              None \<Rightarrow> Inl NullFloatingWidget
            | Some fw \<Rightarrow> Inr (d, w, [moveFloating fw, QFrame_mouseMoveEvent]))
      else
        (let moved = (if isDraggingState d DraggingTab then moveTab w ev d else []) in
         case titleAreaGeometryContains w d (globalPos ev) of
           Inl e \<Rightarrow> Inl e
         | Inr MouseInsideTitleArea \<Rightarrow>
             if \<not> MouseInsideTitleArea
             then (if DockWidgetMovable (widgets w (DockWidget d))
                   then (case startFloating w d of
                           Inl e \<Rightarrow> Inl e
                         | Inr (started, d', w', effs) \<Rightarrow> Inr (d', w', moved @ effs))
                   else Inr (d, w, moved))
             else (case DockArea d of
                     None \<Rightarrow> Inl NullDockArea
                   | Some a \<Rightarrow>
                       if count (areas w a) > 1
                          \<and> manhattanLength (QPoint_minus (pos ev) (DragStartMousePosition d))
                              \<ge> startDragDistance w
                       then Inr (d\<lparr>DragState := DraggingTab\<rparr>, w, moved)
                       else Inr (d, w, moved @ [QFrame_mouseMoveEvent]))))"

definition isActiveTab :: "DockWidgetTabPrivate \<Rightarrow> bool" where
  "isActiveTab d = IsActiveTab d"

definition setActiveTab ::
  "bool \<Rightarrow> DockWidgetTabPrivate \<Rightarrow> DockWidgetTabPrivate \<times> effect list" where
  "setActiveTab active d =
     (if IsActiveTab d = active then (d, [])
      else (d\<lparr>IsActiveTab := active\<rparr>,
            [unpolish TheTab, polish TheTab, unpolish TheTitleLabel, polish TheTitleLabel,
             update, activeTabChanged]))"

definition setDockAreaWidget ::
  "area_ref option \<Rightarrow> DockWidgetTabPrivate \<Rightarrow> DockWidgetTabPrivate" where
  "setDockAreaWidget a d = d\<lparr>DockArea := a\<rparr>"

definition setIcon :: "QIcon \<Rightarrow> DockWidgetTabPrivate \<Rightarrow> DockWidgetTabPrivate" where
  "setIcon i d = d\<lparr>Icon := i, IconLabel := (IconLabel d)\<lparr>pixmap := Some i, visible := True\<rparr>\<rparr>"


section \<open>Sequences of calls\<close>

text \<open>
  The calls that reach a tab, each with the world it finds. The layout engine changes the
  world between two calls, so the world a call leaves is not handed to the next one.
\<close>

datatype call =
    MousePress QMouseEvent
  | MouseRelease world QMouseEvent
  | MouseMove world QMouseEvent
  | SetActiveTab bool
  | SetDockAreaWidget "area_ref option"
  | SetIcon QIcon

fun step :: "call \<Rightarrow> DockWidgetTabPrivate \<Rightarrow> error + DockWidgetTabPrivate" where
  "step (MousePress ev) d = Inr (fst (mousePressEvent ev d))"
| "step (MouseRelease w ev) d = Inr (fst (mouseReleaseEvent w ev d))"
| "step (MouseMove w ev) d =
     (case mouseMoveEvent w ev d of Inl e \<Rightarrow> Inl e | Inr (d', w', effs) \<Rightarrow> Inr d')"
| "step (SetActiveTab b) d = Inr (fst (setActiveTab b d))"
| "step (SetDockAreaWidget a) d = Inr (setDockAreaWidget a d)"
| "step (SetIcon i) d = Inr (setIcon i d)"

fun run :: "call list \<Rightarrow> DockWidgetTabPrivate \<Rightarrow> error + DockWidgetTabPrivate" where
  "run [] d = Inr d"
| "run (c # cs) d = (case step c d of Inl e \<Rightarrow> Inl e | Inr d' \<Rightarrow> run cs d')"

section \<open>Example configurations\<close>

text \<open>
  A dock area at the global origin whose tabs are 100 wide and 20 high, side by side;
  tab \<open>i\<close> belongs to panel \<open>i\<close>. The tab under study is tab 0, so an event's
  local and global positions agree.
\<close>

definition example_entry :: "nat \<Rightarrow> TabEntry" where
  "example_entry i =
     \<lparr>content = i, titleWidget = i,
      geometry = \<lparr>x1 = 100 * int i, y1 = 0, x2 = 100 * int i + 99, y2 = 19\<rparr>\<rparr>"

definition example_area :: "TabEntry list \<Rightarrow> CDockAreaWidget" where
  "example_area es =
     \<lparr>contents = es, area_size = \<lparr>wd = 400, ht = 300\<rparr>,
      titleAreaGeometry = \<lparr>x1 = 0, y1 = 0, x2 = 399, y2 = 19\<rparr>,
      mapFromGlobal = (\<lambda>p. p)\<rparr>"

definition example_panel :: "bool \<Rightarrow> CDockWidget" where
  "example_panel fl =
     \<lparr>dockContainer = \<lparr>isFloating = fl, visibleDockAreaCount = 1, dockAreaCount = 1\<rparr>,
      dockAreaWidget = 0, DockWidgetMovable = True, windowTitle = ''Panel''\<rparr>"

definition example_world :: "bool \<Rightarrow> TabEntry list \<Rightarrow> world" where
  "example_world fl es =
     \<lparr>widgets = (\<lambda>_. example_panel fl), areas = (\<lambda>_. example_area es), floating = [],
      startDragDistance = 10, mapToParent = (\<lambda>p. p)\<rparr>"

text \<open>Two tabs in a docked container; one tab in a docked container; one tab floating.\<close>

definition docked_two :: world where
  "docked_two = example_world False [example_entry 0, example_entry 1]"

definition docked_one :: world where
  "docked_one = example_world False [example_entry 0]"

definition floating_one :: world where
  "floating_one = example_world True [example_entry 0]"

text \<open>Three tabs in a docked container, and an area that holds no tab at all.\<close>

definition docked_three :: world where
  "docked_three = example_world False [example_entry 0, example_entry 1, example_entry 2]"

definition docked_none :: world where
  "docked_none = example_world False []"

definition example_event :: "MouseButton \<Rightarrow> MouseButton set \<Rightarrow> int \<Rightarrow> int \<Rightarrow> QMouseEvent" where
  "example_event b bs x y =
     \<lparr>button = b, buttons = bs, pos = \<lparr>xp = x, yp = y\<rparr>, globalPos = \<lparr>xp = x, yp = y\<rparr>\<rparr>"

text \<open>The tab of panel 0 after construction and attachment to area 0.\<close>

definition example_tab :: DockWidgetTabPrivate where
  "example_tab = setDockAreaWidget (Some 0) (CDockWidgetTab_new docked_two 0 0)"

text \<open>Tab 0 after a left-button press at (5, 5), and the same tab while it is dragged.\<close>

definition pressed_tab :: DockWidgetTabPrivate where
  "pressed_tab = fst (mousePressEvent (example_event LeftButton {LeftButton} 5 5) example_tab)"

definition dragging_tab :: DockWidgetTabPrivate where
  "dragging_tab = pressed_tab\<lparr>DragState := DraggingTab\<rparr>"

definition floating_tab :: DockWidgetTabPrivate where
  "floating_tab = pressed_tab\<lparr>DragState := DraggingFloatingWidget, FloatingWidget := Some 0\<rparr>"


section \<open>Auxiliary facts\<close>

lemmas example_defs =
  example_entry_def example_area_def example_panel_def example_world_def docked_two_def
  docked_one_def floating_one_def docked_three_def docked_none_def example_event_def example_tab_def pressed_tab_def
  dragging_tab_def floating_tab_def CDockWidgetTab_new_def setDockAreaWidget_def
  mousePressEvent_def QPoint_default_def

lemma int32_in_range:
  "- 2147483648 \<le> x \<Longrightarrow> x < 2147483648 \<Longrightarrow> int32 x = x"
  by (simp add: int32_def)

text \<open>
  When the exact Manhattan distance of two points fits 32 bits, no step of its computation
  overflows and the computed value is the exact one.
\<close>

lemma manhattanLength_exact:
  assumes "\<bar>xp p - xp q\<bar> + \<bar>yp p - yp q\<bar> < 2147483648"
  shows "manhattanLength (QPoint_minus p q) = \<bar>xp p - xp q\<bar> + \<bar>yp p - yp q\<bar>"
proof -
  from assms have dx: "int32 (xp p - xp q) = xp p - xp q"
    and dy: "int32 (yp p - yp q) = yp p - yp q"
    by (auto intro!: int32_in_range)
  from assms have ax: "qAbs (xp p - xp q) = \<bar>xp p - xp q\<bar>"
    and ay: "qAbs (yp p - yp q) = \<bar>yp p - yp q\<bar>"
    by (auto simp: qAbs_def intro!: int32_in_range)
  from assms have "int32 (\<bar>xp p - xp q\<bar> + \<bar>yp p - yp q\<bar>) = \<bar>xp p - xp q\<bar> + \<bar>yp p - yp q\<bar>"
    by (auto intro!: int32_in_range)
  then show ?thesis
    by (simp add: manhattanLength_def QPoint_minus_def dx dy ax ay)
qed

lemma indexOfContentByTitlePos_from_range:
  "indexOfContentByTitlePos_from i es p ex = -1
   \<or> (i \<le> indexOfContentByTitlePos_from i es p ex
       \<and> indexOfContentByTitlePos_from i es p ex < i + int (length es))"
proof (induction es arbitrary: i)
  case Nil
  show ?case by simp
next
  case (Cons e es)
  from Cons.IH [of "i + 1"] show ?case by auto
qed

lemma indexOfContentByTitlePos_range:
  "indexOfContentByTitlePos a p ex = -1
   \<or> (0 \<le> indexOfContentByTitlePos a p ex \<and> indexOfContentByTitlePos a p ex \<le> count a - 1)"
  using indexOfContentByTitlePos_from_range [of 0 "contents a" p ex]
  by (auto simp: indexOfContentByTitlePos_def count_def)

text \<open>
  A release after a left-button press emits \<open>clicked\<close> once, unless the press was at the
  tab's origin, and always ends in \<open>DraggingInactive\<close>.
\<close>

lemma press_then_release:
  "button ev = LeftButton \<Longrightarrow>
   count_list (snd (mouseReleaseEvent w ev' (fst (mousePressEvent ev d)))) clicked
     = (if isNull (pos ev) then 0 else 1)
   \<and> DragState (fst (mouseReleaseEvent w ev' (fst (mousePressEvent ev d)))) = DraggingInactive"
  by (simp add: mousePressEvent_def mouseReleaseEvent_def isDraggingState_def Let_def
      split: option.splits)

text \<open>No handler moves the recorded press position except press and release.\<close>

lemma mouseMoveEvent_keeps_press_position:
  "mouseMoveEvent w ev d = Inr (d', w', effs) \<Longrightarrow>
   DragStartMousePosition d' = DragStartMousePosition d"
  by (auto simp: mouseMoveEvent_def isDraggingState_def Let_def startFloating_def
      split: sum.splits if_splits option.splits prod.splits)

text \<open>\<open>startFloating\<close> returns whenever the tab has an owning area.\<close>

lemma startFloating_returns:
  "DockArea d = Some a \<Longrightarrow> \<exists>r d' w' effs. startFloating w d = Inr (r, d', w', effs)"
  by (auto simp: startFloating_def Let_def split: prod.splits)

lemma startFloating_keeps_floating_ref:
  assumes "startFloating w d = Inr (r, d', w', effs)"
    and "DragState d = DraggingFloatingWidget \<longrightarrow> FloatingWidget d \<noteq> None"
  shows "DragState d' = DraggingFloatingWidget \<longrightarrow> FloatingWidget d' \<noteq> None"
  using assms
  by (auto simp: startFloating_def Let_def split: if_splits option.splits prod.splits)

lemma mouseMoveEvent_keeps_floating_ref:
  assumes "mouseMoveEvent w ev d = Inr (d', w', effs)"
    and "DragState d = DraggingFloatingWidget \<longrightarrow> FloatingWidget d \<noteq> None"
  shows "DragState d' = DraggingFloatingWidget \<longrightarrow> FloatingWidget d' \<noteq> None"
proof (cases "LeftButton \<notin> buttons ev \<or> DragState d = DraggingInactive")
  case True
  with assms(1) show ?thesis
    by (auto simp: mouseMoveEvent_def isDraggingState_def)
next
  case held: False
  show ?thesis
  proof (cases "DragState d = DraggingFloatingWidget")
    case True
    with held assms show ?thesis
      by (auto simp: mouseMoveEvent_def isDraggingState_def split: option.splits)
  next
    case False
    with held assms(1) show ?thesis
      by (auto simp: mouseMoveEvent_def isDraggingState_def Let_def
          split: sum.splits if_splits option.splits prod.splits
          dest: startFloating_keeps_floating_ref)
  qed
qed

lemma step_keeps_floating_ref:
  assumes "step c d = Inr d'"
    and "DragState d = DraggingFloatingWidget \<longrightarrow> FloatingWidget d \<noteq> None"
  shows "DragState d' = DraggingFloatingWidget \<longrightarrow> FloatingWidget d' \<noteq> None"
proof (cases c)
  case (MousePress ev)
  with assms show ?thesis by (auto simp: mousePressEvent_def split: if_splits)
next
  case (MouseRelease w ev)
  with assms show ?thesis by (auto simp: mouseReleaseEvent_def Let_def)
next
  case (MouseMove w ev)
  with assms show ?thesis
    by (auto split: sum.splits prod.splits dest: mouseMoveEvent_keeps_floating_ref)
next
  case (SetActiveTab b)
  with assms show ?thesis by (auto simp: setActiveTab_def split: if_splits)
next
  case (SetDockAreaWidget a)
  with assms show ?thesis by (auto simp: setDockAreaWidget_def)
next
  case (SetIcon i)
  with assms show ?thesis by (auto simp: setIcon_def)
qed

lemma run_keeps_floating_ref:
  "run cs d = Inr d' \<Longrightarrow>
   (DragState d = DraggingFloatingWidget \<longrightarrow> FloatingWidget d \<noteq> None) \<Longrightarrow>
   (DragState d' = DraggingFloatingWidget \<longrightarrow> FloatingWidget d' \<noteq> None)"
proof (induction cs arbitrary: d)
  case Nil
  then show ?case by simp
next
  case (Cons c cs)
  from Cons.prems(1) obtain d1 where s: "step c d = Inr d1" and r: "run cs d1 = Inr d'"
    by (auto split: sum.splits)
  from step_keeps_floating_ref [OF s Cons.prems(2)] Cons.IH [OF r] show ?case by blast
qed


section \<open>Click on release\<close>

text \<open>
  C1. Every left-button press followed by a release, with no mouse move beyond the drag
  threshold in between, should emit exactly one \<open>clicked\<close> on release and return the
  drag state to \<open>DraggingInactive\<close>. The release handler decides whether a press was
  recorded by testing the stored press position against the null point, so a press at the
  tab's own origin (0, 0) is taken for no press: the release that follows emits only the
  inherited handler's call, and no \<open>clicked\<close>. (\<open>press_then_release\<close> above shows that
  every other press position gives exactly one.)
\<close>

theorem press_at_origin_then_release:
  "snd (mouseReleaseEvent docked_two (example_event LeftButton {} 0 0)
          (fst (mousePressEvent (example_event LeftButton {LeftButton} 0 0) example_tab)))
   = [QFrame_mouseReleaseEvent]"
  by (simp add: mouseReleaseEvent_def isDraggingState_def Let_def isNull_def example_defs)

text \<open>
  C8. A left-button press at the tab's local coordinate (0, 0) stores exactly the null
  point, and the release that follows it without any movement emits no \<open>clicked\<close>.
\<close>

theorem press_at_origin_no_clicked:
  assumes "button ev = LeftButton" and "pos ev = \<lparr>xp = 0, yp = 0\<rparr>"
  shows "DragStartMousePosition (fst (mousePressEvent ev d)) = QPoint_default
     \<and> isNull (DragStartMousePosition (fst (mousePressEvent ev d)))
     \<and> clicked \<notin> set (snd (mouseReleaseEvent w ev' (fst (mousePressEvent ev d))))"
  using assms
  by (simp add: mousePressEvent_def mouseReleaseEvent_def isDraggingState_def Let_def isNull_def
      QPoint_default_def split: option.splits)

theorem press_at_origin_no_clicked_witness:
  "button (example_event LeftButton {LeftButton} 0 0) = LeftButton
   \<and> pos (example_event LeftButton {LeftButton} 0 0) = \<lparr>xp = 0, yp = 0\<rparr>
   \<and> clicked \<notin> set (snd (mouseReleaseEvent docked_one (example_event LeftButton {} 0 0)
         (fst (mousePressEvent (example_event LeftButton {LeftButton} 0 0) example_tab))))"
proof -
  have b: "button (example_event LeftButton {LeftButton} 0 0) = LeftButton"
    and p: "pos (example_event LeftButton {LeftButton} 0 0) = \<lparr>xp = 0, yp = 0\<rparr>"
    by (simp_all add: example_event_def)
  from press_at_origin_no_clicked [OF b p] b p show ?thesis by blast
qed


section \<open>Starting to float\<close>

text \<open>
  C2. \<open>startFloating\<close> declines (returns false) exactly when the panel's container is
  floating, that container has exactly one visible dock area, and the area that owns the
  panel (which the source reads through the panel, \<open>DockWidget->dockAreaWidget()\<close>) holds
  exactly one tab. When it declines, the private data (so the drag state and the stored
  floating-window reference) and the world (so the list of floating windows) are unchanged
  and nothing is requested from a collaborator.
\<close>

theorem startFloating_declines:
  "((\<exists>d' w' effs. startFloating w d = Inr (False, d', w', effs))
      = (isFloating (dockContainer (widgets w (DockWidget d)))
         \<and> visibleDockAreaCount (dockContainer (widgets w (DockWidget d))) = 1
         \<and> count (areas w (dockAreaWidget (widgets w (DockWidget d)))) = 1))
   \<and> (\<forall>d' w' effs. startFloating w d = Inr (False, d', w', effs) \<longrightarrow>
         d' = d \<and> w' = w \<and> effs = [])"
  by (auto simp: startFloating_def Let_def split: option.splits if_splits prod.splits)

theorem startFloating_declines_witness:
  "startFloating floating_one pressed_tab = Inr (False, pressed_tab, floating_one, [])
   \<and> isFloating (dockContainer (widgets floating_one (DockWidget pressed_tab)))
   \<and> visibleDockAreaCount (dockContainer (widgets floating_one (DockWidget pressed_tab))) = 1
   \<and> count (areas floating_one (dockAreaWidget (widgets floating_one (DockWidget pressed_tab)))) = 1
   \<and> (\<forall>d' w' effs. startFloating docked_one pressed_tab \<noteq> Inr (False, d', w', effs))"
  using startFloating_declines [of floating_one pressed_tab]
    startFloating_declines [of docked_one pressed_tab]
  by (auto simp: count_def example_defs)

text \<open>
  C3. When \<open>startFloating\<close> succeeds, the tab has an owning area. If that area holds more
  than one tab, the new floating window wraps only the dragged panel, and the area that
  held the panel keeps all its other panels, every other area being untouched; if it holds
  exactly one tab, the new floating window wraps the area object itself and no area
  changes. In both cases the drag state becomes \<open>DraggingFloatingWidget\<close>, the stored
  reference is the new window, the window is started at the recorded press position with
  the size the area had, and the overlay is restricted to the outer dock areas.
\<close>

theorem startFloating_succeeds:
  assumes "startFloating w d = Inr (True, d', w', effs)"
  shows "\<exists>a. DockArea d = Some a
     \<and> DragState d' = DraggingFloatingWidget
     \<and> FloatingWidget d' = Some (length (floating w))
     \<and> effs = [CFloatingDockContainer_startFloating (length (floating w))
                 (DragStartMousePosition d) (area_size (areas w a)),
               setAllowedAreas OuterDockAreas]
     \<and> (count (areas w a) > 1 \<longrightarrow>
          floating w' = floating w @ [FloatingDockWidget (DockWidget d)]
          \<and> contents (areas w' (dockAreaWidget (widgets w (DockWidget d))))
              = filter (\<lambda>e. content e \<noteq> DockWidget d)
                  (contents (areas w (dockAreaWidget (widgets w (DockWidget d)))))
          \<and> (\<forall>b. b \<noteq> dockAreaWidget (widgets w (DockWidget d)) \<longrightarrow> areas w' b = areas w b))
     \<and> (count (areas w a) = 1 \<longrightarrow>
          floating w' = floating w @ [FloatingDockArea a] \<and> areas w' = areas w)"
  using assms
  by (auto simp: startFloating_def Let_def new_CFloatingDockContainer_widget_def
      new_CFloatingDockContainer_area_def split: option.splits if_splits prod.splits)

theorem startFloating_succeeds_witness:
  "startFloating docked_two pressed_tab
     = Inr (True, floating_tab, snd (new_CFloatingDockContainer_widget docked_two 0),
            [CFloatingDockContainer_startFloating 0 \<lparr>xp = 5, yp = 5\<rparr> \<lparr>wd = 400, ht = 300\<rparr>,
             setAllowedAreas OuterDockAreas])
   \<and> count (areas docked_two 0) > 1
   \<and> floating (snd (new_CFloatingDockContainer_widget docked_two 0)) = [FloatingDockWidget 0]
   \<and> contents (areas (snd (new_CFloatingDockContainer_widget docked_two 0)) 0) = [example_entry 1]
   \<and> startFloating docked_one pressed_tab
     = Inr (True, floating_tab, snd (new_CFloatingDockContainer_area docked_one 0),
            [CFloatingDockContainer_startFloating 0 \<lparr>xp = 5, yp = 5\<rparr> \<lparr>wd = 400, ht = 300\<rparr>,
             setAllowedAreas OuterDockAreas])
   \<and> count (areas docked_one 0) = 1
   \<and> floating (snd (new_CFloatingDockContainer_area docked_one 0)) = [FloatingDockArea 0]
   \<and> areas (snd (new_CFloatingDockContainer_area docked_one 0)) = areas docked_one"
proof -
  have two: "startFloating docked_two pressed_tab
     = Inr (True, floating_tab, snd (new_CFloatingDockContainer_widget docked_two 0),
            [CFloatingDockContainer_startFloating 0 \<lparr>xp = 5, yp = 5\<rparr> \<lparr>wd = 400, ht = 300\<rparr>,
             setAllowedAreas OuterDockAreas])"
    by (simp add: startFloating_def Let_def count_def new_CFloatingDockContainer_widget_def
        example_defs)
  have one: "startFloating docked_one pressed_tab
     = Inr (True, floating_tab, snd (new_CFloatingDockContainer_area docked_one 0),
            [CFloatingDockContainer_startFloating 0 \<lparr>xp = 5, yp = 5\<rparr> \<lparr>wd = 400, ht = 300\<rparr>,
             setAllowedAreas OuterDockAreas])"
    by (simp add: startFloating_def Let_def count_def new_CFloatingDockContainer_area_def
        example_defs)
  have c2: "count (areas docked_two 0) > 1" and c1: "count (areas docked_one 0) = 1"
    by (simp_all add: count_def example_defs)
  have a: "DockArea pressed_tab = Some 0" and p: "DockWidget pressed_tab = 0"
    by (simp_all add: example_defs)
  have e: "filter (\<lambda>e. content e \<noteq> 0) (contents (areas docked_two 0)) = [example_entry 1]"
    and f2: "floating docked_two = []" and f1: "floating docked_one = []"
    and w2: "dockAreaWidget (widgets docked_two 0) = 0"
    by (simp_all add: example_defs)
  from startFloating_succeeds [OF two] startFloating_succeeds [OF one]
  show ?thesis
    using two one c2 c1 a p e f2 f1 w2 by auto
qed


section \<open>Reordering on release\<close>

text \<open>
  C4, as the claim states it, fails: the release handler has no test for an owning area
  without tabs. With the tab in the \<open>DraggingTab\<close> state and its owning area set to an
  area that holds no tab, the hit test finds nothing, the fallback is \<open>count - 1 = -1\<close>,
  and the reorder request is issued with a \<open>toIndex\<close> of -1, outside every index range.
\<close>

theorem mouseReleaseEvent_reorder_empty_area:
  "DragState dragging_tab = DraggingTab \<and> DockArea dragging_tab = Some 0
   \<and> count (areas docked_none 0) = 0
   \<and> snd (mouseReleaseEvent docked_none (example_event LeftButton {} 50 5) dragging_tab)
       = [reorderDockWidget 0 (- 1) (- 1), clicked, QFrame_mouseReleaseEvent]
   \<and> \<not> (0 \<le> (- 1 :: int) \<and> (- 1 :: int) \<le> count (areas docked_none 0) - 1)"
  by (simp add: mouseReleaseEvent_def isDraggingState_def Let_def tabIndex_def count_def
      indexOfContentByTitlePos_def isNull_def example_defs)

text \<open>
  C4, amended. A release in the \<open>DraggingTab\<close> state, with an owning area set that holds
  at least one tab, issues one reorder request to that area. Its \<open>toIndex\<close> lies in the
  range from 0 to \<open>count - 1\<close>: it is the hit-tested index of the release position when a
  sibling tab matches, and \<open>count - 1\<close> when the hit test returns no match (-1).
\<close>

theorem mouseReleaseEvent_reorder:
  assumes "DragState d = DraggingTab" and "DockArea d = Some a"
    and "contents (areas w a) \<noteq> []"
  shows "\<exists>toIndex.
     snd (mouseReleaseEvent w ev d)
       = reorderDockWidget a (tabIndex (areas w a) (DockWidget d)) toIndex
         # (if isNull (DragStartMousePosition d) then [] else [clicked])
         @ [QFrame_mouseReleaseEvent]
     \<and> 0 \<le> toIndex \<and> toIndex \<le> count (areas w a) - 1
     \<and> toIndex =
         (if indexOfContentByTitlePos (areas w a) (mapFromGlobal (areas w a) (globalPos ev))
               (this_tab d) = -1
          then count (areas w a) - 1
          else indexOfContentByTitlePos (areas w a) (mapFromGlobal (areas w a) (globalPos ev))
                 (this_tab d))"
proof -
  from assms(3) have "1 \<le> count (areas w a)"
    by (cases "contents (areas w a)") (simp_all add: count_def)
  with assms(1,2)
    indexOfContentByTitlePos_range
      [of "areas w a" "mapFromGlobal (areas w a) (globalPos ev)" "this_tab d"]
  show ?thesis
    by (auto simp: mouseReleaseEvent_def Let_def isDraggingState_def)
qed

theorem mouseReleaseEvent_reorder_witness:
  "DragState dragging_tab = DraggingTab \<and> DockArea dragging_tab = Some 0
   \<and> contents (areas docked_three 0) \<noteq> []
   \<and> count (areas docked_three 0) = 3
   \<and> indexOfContentByTitlePos (areas docked_three 0) \<lparr>xp = 150, yp = 5\<rparr> 0 = 1
   \<and> snd (mouseReleaseEvent docked_three (example_event LeftButton {} 150 5) dragging_tab)
       = [reorderDockWidget 0 0 1, clicked, QFrame_mouseReleaseEvent]
   \<and> indexOfContentByTitlePos (areas docked_three 0) \<lparr>xp = 350, yp = 5\<rparr> 0 = -1
   \<and> snd (mouseReleaseEvent docked_three (example_event LeftButton {} 350 5) dragging_tab)
       = [reorderDockWidget 0 0 2, clicked, QFrame_mouseReleaseEvent]"
proof -
  have h: "DragState dragging_tab = DraggingTab" "DockArea dragging_tab = Some 0"
    "contents (areas docked_three 0) \<noteq> []"
    by (simp_all add: example_defs)
  have v: "tabIndex (areas docked_three 0) (DockWidget dragging_tab) = 0"
    "count (areas docked_three 0) = 3"
    "mapFromGlobal (areas docked_three 0) (globalPos (example_event LeftButton {} 150 5))
       = \<lparr>xp = 150, yp = 5\<rparr>"
    "mapFromGlobal (areas docked_three 0) (globalPos (example_event LeftButton {} 350 5))
       = \<lparr>xp = 350, yp = 5\<rparr>"
    "indexOfContentByTitlePos (areas docked_three 0) \<lparr>xp = 150, yp = 5\<rparr> (this_tab dragging_tab) = 1"
    "indexOfContentByTitlePos (areas docked_three 0) \<lparr>xp = 350, yp = 5\<rparr> (this_tab dragging_tab) = -1"
    "this_tab dragging_tab = 0"
    "isNull (DragStartMousePosition dragging_tab) = False"
    by (simp_all add: tabIndex_def count_def indexOfContentByTitlePos_def QRect_contains_def
        isNull_def example_defs)
  from mouseReleaseEvent_reorder [OF h, of "example_event LeftButton {} 150 5"]
    mouseReleaseEvent_reorder [OF h, of "example_event LeftButton {} 350 5"]
  show ?thesis using h v by auto
qed


section \<open>The active flag\<close>

text \<open>
  C5. \<open>setActiveTab\<close> is idempotent. Called with the value already stored it changes
  nothing and emits nothing; called with a different value it stores the value, re-applies
  the style to the tab and to its title label, and emits \<open>activeTabChanged\<close>. A second call
  with the same value therefore adds nothing to what the first call did: the two calls
  together make exactly the calls of the first one, which, when the first call changes the
  flag, is one restyle of the tab, one of the label and one notification.
\<close>

theorem setActiveTab_idempotent:
  "(IsActiveTab d = active \<longrightarrow> setActiveTab active d = (d, []))
   \<and> (IsActiveTab d \<noteq> active \<longrightarrow>
        setActiveTab active d
          = (d\<lparr>IsActiveTab := active\<rparr>,
             [unpolish TheTab, polish TheTab, unpolish TheTitleLabel, polish TheTitleLabel,
              update, activeTabChanged]))
   \<and> setActiveTab active (fst (setActiveTab active d)) = (fst (setActiveTab active d), [])
   \<and> snd (setActiveTab active d) @ snd (setActiveTab active (fst (setActiveTab active d)))
       = snd (setActiveTab active d)
   \<and> (IsActiveTab d \<noteq> active \<longrightarrow>
        count_list (snd (setActiveTab active d)
                    @ snd (setActiveTab active (fst (setActiveTab active d)))) activeTabChanged = 1
        \<and> count_list (snd (setActiveTab active d)
                      @ snd (setActiveTab active (fst (setActiveTab active d)))) (polish TheTab) = 1
        \<and> count_list (snd (setActiveTab active d)
                      @ snd (setActiveTab active (fst (setActiveTab active d))))
              (polish TheTitleLabel) = 1)"
  by (simp add: setActiveTab_def)

theorem setActiveTab_idempotent_witness:
  "IsActiveTab example_tab \<noteq> True
   \<and> IsActiveTab (fst (setActiveTab True example_tab)) = True
   \<and> setActiveTab True (fst (setActiveTab True example_tab))
       = (fst (setActiveTab True example_tab), [])
   \<and> count_list (snd (setActiveTab True example_tab)
                 @ snd (setActiveTab True (fst (setActiveTab True example_tab))))
         activeTabChanged = 1
   \<and> IsActiveTab example_tab = False
   \<and> setActiveTab False example_tab = (example_tab, [])"
proof -
  have f: "IsActiveTab example_tab = False" by (simp add: example_defs)
  have t: "IsActiveTab (fst (setActiveTab True example_tab)) = True"
    by (simp add: setActiveTab_def f)
  from setActiveTab_idempotent [of example_tab True] setActiveTab_idempotent [of example_tab False]
  show ?thesis using f t by (simp add: setActiveTab_def)
qed


section \<open>Mouse moves\<close>

text \<open>
  C6, as the claim states it, fails: a mouse move that arrives in the \<open>DraggingMousePressed\<close>
  state while the left button is not held is caught by the handler's first test. Here only
  the right button is held, the pointer is inside the title area, the area holds two tabs
  and the pointer is 45 from the press position with a threshold of 10, yet the state
  becomes \<open>DraggingInactive\<close>.
\<close>

theorem mouseMoveEvent_pressed_not_held:
  "DragState pressed_tab = DraggingMousePressed
   \<and> QRect_contains (titleAreaGeometry (areas docked_two 0))
        (mapFromGlobal (areas docked_two 0) (globalPos (example_event NoButton {RightButton} 50 5)))
   \<and> count (areas docked_two 0) > 1
   \<and> manhattanLength (QPoint_minus (pos (example_event NoButton {RightButton} 50 5))
        (DragStartMousePosition pressed_tab)) = 45
   \<and> startDragDistance docked_two = 10
   \<and> mouseMoveEvent docked_two (example_event NoButton {RightButton} 50 5) pressed_tab
       = Inr (pressed_tab\<lparr>DragState := DraggingInactive\<rparr>, docked_two, [QFrame_mouseMoveEvent])
   \<and> DragState (pressed_tab\<lparr>DragState := DraggingInactive\<rparr>) \<noteq> DraggingTab"
  by (simp add: mouseMoveEvent_def isDraggingState_def QRect_contains_def count_def
      manhattanLength_def QPoint_minus_def qAbs_def int32_def example_defs)

text \<open>
  C6, amended. A mouse move with the left button held that is processed in the
  \<open>DraggingMousePressed\<close> state of a tab with an owning area, at a position whose Manhattan
  distance from the recorded press position fits a 32-bit \<open>int\<close> (is below 2^31), is
  handled without error and leaves the drag state at \<open>DraggingTab\<close> exactly when the
  pointer is inside the title-bar area, the owning area holds more than one tab, and that
  Manhattan distance is at least the application's drag-start distance.
\<close>

theorem mouseMoveEvent_pressed_to_DraggingTab:
  assumes "DragState d = DraggingMousePressed" and "LeftButton \<in> buttons ev"
    and "DockArea d = Some a"
    and "\<bar>xp (pos ev) - xp (DragStartMousePosition d)\<bar>
         + \<bar>yp (pos ev) - yp (DragStartMousePosition d)\<bar> < 2147483648"
  shows "\<exists>d' w' effs. mouseMoveEvent w ev d = Inr (d', w', effs)
     \<and> (DragState d' = DraggingTab) =
         (QRect_contains (titleAreaGeometry (areas w a)) (mapFromGlobal (areas w a) (globalPos ev))
          \<and> count (areas w a) > 1
          \<and> \<bar>xp (pos ev) - xp (DragStartMousePosition d)\<bar>
              + \<bar>yp (pos ev) - yp (DragStartMousePosition d)\<bar> \<ge> startDragDistance w)"
  using assms(1-3) manhattanLength_exact [OF assms(4)]
  by (auto simp: mouseMoveEvent_def titleAreaGeometryContains_def isDraggingState_def Let_def
      startFloating_def split: prod.splits)

theorem mouseMoveEvent_pressed_to_DraggingTab_witness:
  "DragState pressed_tab = DraggingMousePressed
   \<and> LeftButton \<in> buttons (example_event NoButton {LeftButton} 50 5)
   \<and> DockArea pressed_tab = Some 0
   \<and> \<bar>xp (pos (example_event NoButton {LeftButton} 50 5)) - xp (DragStartMousePosition pressed_tab)\<bar>
       + \<bar>yp (pos (example_event NoButton {LeftButton} 50 5)) - yp (DragStartMousePosition pressed_tab)\<bar>
       = 45
   \<and> mouseMoveEvent docked_two (example_event NoButton {LeftButton} 50 5) pressed_tab
       = Inr (dragging_tab, docked_two, [])
   \<and> \<bar>xp (pos (example_event NoButton {LeftButton} 8 5)) - xp (DragStartMousePosition pressed_tab)\<bar>
       + \<bar>yp (pos (example_event NoButton {LeftButton} 8 5)) - yp (DragStartMousePosition pressed_tab)\<bar>
       = 3
   \<and> mouseMoveEvent docked_two (example_event NoButton {LeftButton} 8 5) pressed_tab
       = Inr (pressed_tab, docked_two, [QFrame_mouseMoveEvent])"
proof -
  have h: "DragState pressed_tab = DraggingMousePressed"
    "LeftButton \<in> buttons (example_event NoButton {LeftButton} 50 5)"
    "DockArea pressed_tab = Some 0"
    and h': "LeftButton \<in> buttons (example_event NoButton {LeftButton} 8 5)"
    by (simp_all add: example_defs)
  have far: "\<bar>xp (pos (example_event NoButton {LeftButton} 50 5)) - xp (DragStartMousePosition pressed_tab)\<bar>
       + \<bar>yp (pos (example_event NoButton {LeftButton} 50 5)) - yp (DragStartMousePosition pressed_tab)\<bar>
       = 45"
    and near: "\<bar>xp (pos (example_event NoButton {LeftButton} 8 5)) - xp (DragStartMousePosition pressed_tab)\<bar>
       + \<bar>yp (pos (example_event NoButton {LeftButton} 8 5)) - yp (DragStartMousePosition pressed_tab)\<bar>
       = 3"
    by (simp_all add: example_defs)
  have rfar: "\<bar>xp (pos (example_event NoButton {LeftButton} 50 5)) - xp (DragStartMousePosition pressed_tab)\<bar>
       + \<bar>yp (pos (example_event NoButton {LeftButton} 50 5)) - yp (DragStartMousePosition pressed_tab)\<bar>
       < 2147483648"
    and rnear: "\<bar>xp (pos (example_event NoButton {LeftButton} 8 5)) - xp (DragStartMousePosition pressed_tab)\<bar>
       + \<bar>yp (pos (example_event NoButton {LeftButton} 8 5)) - yp (DragStartMousePosition pressed_tab)\<bar>
       < 2147483648"
    unfolding far near by simp_all
  have mfar: "mouseMoveEvent docked_two (example_event NoButton {LeftButton} 50 5) pressed_tab
       = Inr (dragging_tab, docked_two, [])"
    and mnear: "mouseMoveEvent docked_two (example_event NoButton {LeftButton} 8 5) pressed_tab
       = Inr (pressed_tab, docked_two, [QFrame_mouseMoveEvent])"
    by (simp_all add: mouseMoveEvent_def titleAreaGeometryContains_def isDraggingState_def
        QRect_contains_def count_def manhattanLength_def QPoint_minus_def qAbs_def int32_def
        example_defs)
  from mouseMoveEvent_pressed_to_DraggingTab [OF h rfar, of docked_two]
    mouseMoveEvent_pressed_to_DraggingTab [OF h(1) h' h(3) rnear, of docked_two]
  show ?thesis using h far near mfar mnear by simp
qed

text \<open>
  C7. A mouse move received while the left button is not held, or while the drag state is
  \<open>DraggingInactive\<close>, is passed to the inherited \<open>QFrame\<close> handler and nothing else, and
  sets the drag state to \<open>DraggingInactive\<close>; so after it the tab is in no dragging state.
\<close>

theorem mouseMoveEvent_not_held_or_inactive:
  assumes "LeftButton \<notin> buttons ev \<or> DragState d = DraggingInactive"
  shows "mouseMoveEvent w ev d
       = Inr (d\<lparr>DragState := DraggingInactive\<rparr>, w, [QFrame_mouseMoveEvent])
     \<and> DragState (d\<lparr>DragState := DraggingInactive\<rparr>) = DraggingInactive"
  using assms by (auto simp: mouseMoveEvent_def isDraggingState_def)

theorem mouseMoveEvent_not_held_or_inactive_witness:
  "LeftButton \<notin> buttons (example_event NoButton {RightButton} 50 5)
   \<and> DragState dragging_tab = DraggingTab
   \<and> mouseMoveEvent docked_two (example_event NoButton {RightButton} 50 5) dragging_tab
       = Inr (dragging_tab\<lparr>DragState := DraggingInactive\<rparr>, docked_two, [QFrame_mouseMoveEvent])
   \<and> DragState example_tab = DraggingInactive
   \<and> mouseMoveEvent docked_two (example_event NoButton {LeftButton} 50 5) example_tab
       = Inr (example_tab\<lparr>DragState := DraggingInactive\<rparr>, docked_two, [QFrame_mouseMoveEvent])"
proof -
  have n: "LeftButton \<notin> buttons (example_event NoButton {RightButton} 50 5)"
    and i: "DragState example_tab = DraggingInactive"
    and t: "DragState dragging_tab = DraggingTab"
    by (simp_all add: example_defs)
  from mouseMoveEvent_not_held_or_inactive [OF disjI1, OF n, of docked_two dragging_tab]
    mouseMoveEvent_not_held_or_inactive [OF disjI2, OF i, of docked_two]
  show ?thesis using n i t by simp
qed


section \<open>The floating-window reference\<close>

text \<open>
  C9. In every state that a newly constructed tab reaches through any sequence of calls to
  its handlers and setters, whatever world each call finds, a drag state of
  \<open>DraggingFloatingWidget\<close> comes with a stored floating-window reference that is not
  null; so the move handler, which hands the move to that window in this state, never fails
  on a null floating-window reference.
\<close>

theorem reachable_floating_ref:
  assumes "run cs (CDockWidgetTab_new w0 t p) = Inr d"
  shows "(DragState d = DraggingFloatingWidget \<longrightarrow> FloatingWidget d \<noteq> None)
     \<and> (\<forall>w ev. mouseMoveEvent w ev d \<noteq> Inl NullFloatingWidget)"
proof -
  have init: "DragState (CDockWidgetTab_new w0 t p) = DraggingFloatingWidget \<longrightarrow>
      FloatingWidget (CDockWidgetTab_new w0 t p) \<noteq> None"
    by (simp add: CDockWidgetTab_new_def)
  from run_keeps_floating_ref [OF assms init]
  have inv: "DragState d = DraggingFloatingWidget \<longrightarrow> FloatingWidget d \<noteq> None" .
  have "mouseMoveEvent w ev d \<noteq> Inl NullFloatingWidget" for w ev
    using inv
    by (auto simp: mouseMoveEvent_def isDraggingState_def Let_def titleAreaGeometryContains_def
        startFloating_def
        split: sum.splits if_splits option.splits prod.splits)
  with inv show ?thesis by blast
qed

theorem reachable_floating_ref_witness:
  "run [SetDockAreaWidget (Some 0),
        MousePress (example_event LeftButton {LeftButton} 5 5),
        MouseMove docked_two (example_event NoButton {LeftButton} 50 50)]
     (CDockWidgetTab_new docked_two 0 0) = Inr floating_tab
   \<and> DragState floating_tab = DraggingFloatingWidget
   \<and> FloatingWidget floating_tab \<noteq> None
   \<and> mouseMoveEvent docked_two (example_event NoButton {LeftButton} 60 60) floating_tab
       \<noteq> Inl NullFloatingWidget"
proof -
  have m: "mouseMoveEvent docked_two (example_event NoButton {LeftButton} 50 50) pressed_tab
      = Inr (floating_tab, snd (new_CFloatingDockContainer_widget docked_two 0),
             [CFloatingDockContainer_startFloating 0 \<lparr>xp = 5, yp = 5\<rparr> \<lparr>wd = 400, ht = 300\<rparr>,
              setAllowedAreas OuterDockAreas])"
    by (simp add: mouseMoveEvent_def titleAreaGeometryContains_def isDraggingState_def
        QRect_contains_def startFloating_def Let_def count_def
        new_CFloatingDockContainer_widget_def example_defs)
  have r: "run [SetDockAreaWidget (Some 0),
        MousePress (example_event LeftButton {LeftButton} 5 5),
        MouseMove docked_two (example_event NoButton {LeftButton} 50 50)]
     (CDockWidgetTab_new docked_two 0 0) = Inr floating_tab"
    using m by (simp add: pressed_tab_def example_tab_def)
  have s: "DragState floating_tab = DraggingFloatingWidget"
    by (simp add: floating_tab_def)
  from reachable_floating_ref [OF r] r s show ?thesis by blast
qed


section \<open>Presses of other buttons\<close>

text \<open>
  C10. A mouse press whose button is not the left button is passed to the inherited
  \<open>QFrame\<close> handler and leaves the tab's private data as it was: the drag state, the
  recorded press position, the active flag, the icon and the area reference keep their
  values.
\<close>

theorem mousePressEvent_other_button:
  assumes "button ev \<noteq> LeftButton"
  shows "mousePressEvent ev d = (d, [QFrame_mousePressEvent])
     \<and> DragState (fst (mousePressEvent ev d)) = DragState d
     \<and> DragStartMousePosition (fst (mousePressEvent ev d)) = DragStartMousePosition d
     \<and> IsActiveTab (fst (mousePressEvent ev d)) = IsActiveTab d
     \<and> Icon (fst (mousePressEvent ev d)) = Icon d
     \<and> DockArea (fst (mousePressEvent ev d)) = DockArea d"
  using assms by (simp add: mousePressEvent_def)

theorem mousePressEvent_other_button_witness:
  "button (example_event RightButton {RightButton} 5 5) \<noteq> LeftButton
   \<and> mousePressEvent (example_event RightButton {RightButton} 5 5) dragging_tab
       = (dragging_tab, [QFrame_mousePressEvent])"
proof -
  have b: "button (example_event RightButton {RightButton} 5 5) \<noteq> LeftButton"
    by (simp add: example_event_def)
  from mousePressEvent_other_button [OF b, of dragging_tab] b show ?thesis by blast
qed

end
